theory Spec2Isabelle
  imports Main "HOL-Library.Word" "HOL-Library.Signed_Division"
begin

section \<open>The channel link of htlcswitch/link.go\<close>

text \<open>
  A shallow embedding of \<^verbatim>\<open>src/htlcswitch/link.go\<close>. Machine integers keep their
  width: \<^verbatim>\<open>lnwire.MilliSatoshi\<close> is an unsigned 64-bit integer, \<^verbatim>\<open>btcutil.Amount\<close> a
  signed 64-bit integer, block heights, time-locks and the batch counter are
  \<^verbatim>\<open>uint32\<close>, HTLC indices are \<^verbatim>\<open>uint64\<close>. All of them are words, so that \<open>+\<close>,
  \<open>-\<close> and \<open>*\<close> wrap around as Go's do.
\<close>

subsection \<open>Numeric types\<close>

type_synonym MilliSatoshi = "64 word"
type_synonym Amount = "64 word"
type_synonym uint32 = "32 word"
type_synonym uint64 = "64 word"
type_synonym bytes = "8 word list"

text \<open>
  Division of \<^verbatim>\<open>btcutil.Amount\<close> (Go's \<^verbatim>\<open>int64\<close>): the operands are read as two's
  complement, the quotient truncates towards zero and is cut to 64 bits.
\<close>

definition int64_div :: "Amount \<Rightarrow> Amount \<Rightarrow> Amount" where
  "int64_div a b = word_of_int (sint a sdiv sint b)"

definition expiryGraceDelta :: uint32 where
  "expiryGraceDelta = 2"

subsection \<open>ForwardingPolicy and ExpectedFee\<close>

record ForwardingPolicy =
  MinHTLC :: MilliSatoshi
  BaseFee :: MilliSatoshi
  FeeRate :: MilliSatoshi
  TimeLockDelta :: uint32

definition ExpectedFee :: "ForwardingPolicy \<Rightarrow> MilliSatoshi \<Rightarrow> MilliSatoshi" where
  "ExpectedFee f htlcAmt = BaseFee f + (htlcAmt * FeeRate f) div 1000000"

subsection \<open>shouldAdjustCommitFee\<close>

definition shouldAdjustCommitFee :: "Amount \<Rightarrow> Amount \<Rightarrow> bool" where
  "shouldAdjustCommitFee netFee chanFee =
     (if chanFee <s netFee \<and> (chanFee + int64_div (chanFee * 10) 100) \<le>s netFee then True
      else if netFee <s chanFee \<and> netFee \<le>s (chanFee - int64_div (chanFee * 10) 100) then True
      else False)"

subsection \<open>Wire messages and failure messages\<close>

text \<open>
  Identifiers and opaque values of other packages are natural numbers: channel ids,
  the \<^verbatim>\<open>lnwire.ChannelUpdate\<close> carried by a failure, the handle of an
  \<^verbatim>\<open>ErrorEncrypter\<close>. Byte arrays and slices are lists of bytes.
\<close>

type_synonym ChannelID = nat
type_synonym ShortChannelID = nat
type_synonym ChannelUpdate = nat
type_synonym ErrorEncrypter = nat

text \<open>Go's \<^verbatim>\<open>copy\<close> into a zeroed array of \<open>n\<close> bytes: the source is cut or padded.\<close>

definition copy_into :: "nat \<Rightarrow> bytes \<Rightarrow> bytes" where
  "copy_into n src = take n src @ replicate (n - length src) 0"

datatype error = ErrMaxHTLCNumber | ErrNoWindow | InvalidCommitSigError | ErrOther string

datatype FailCode =
    CodeNone
  | CodeInvalidOnionVersion
  | CodeInvalidOnionHmac
  | CodeInvalidOnionKey
  | CodeOther nat

text \<open>
  The failures the link builds. \<^verbatim>\<open>FailFinalIncorrectCltvExpiry\<close> carries the expiry
  (zero in the literal \<^verbatim>\<open>lnwire.FailFinalIncorrectCltvExpiry{}\<close>);
  \<^verbatim>\<open>NewTemporaryChannelFailure(nil)\<close> carries no update.
\<close>

datatype FailureMessage =
    FailFinalIncorrectCltvExpiry uint32
  | FailUnknownPaymentHash
  | FailIncorrectPaymentAmount
  | FailTemporaryChannelFailure "ChannelUpdate option"
  | FailExpiryTooSoon ChannelUpdate
  | FailAmountBelowMinimum MilliSatoshi ChannelUpdate
  | FailFeeInsufficient MilliSatoshi ChannelUpdate
  | FailIncorrectCltvExpiry uint32 ChannelUpdate
  | FailInvalidOnionVersion bytes
  | FailInvalidOnionHmac bytes
  | FailInvalidOnionKey bytes

text \<open>
  The wire messages, with the fields the link reads or writes, in this order:
  \<^verbatim>\<open>UpdateAddHTLC ChanID ID Amount PaymentHash Expiry OnionBlob\<close>,
  \<^verbatim>\<open>UpdateFufillHTLC ChanID ID PaymentPreimage\<close>,
  \<^verbatim>\<open>UpdateFailHTLC ChanID ID Reason\<close>,
  \<^verbatim>\<open>UpdateFailMalformedHTLC ChanID ID ShaOnionBlob FailureCode\<close>,
  \<^verbatim>\<open>CommitSig ChanID CommitSig HtlcSigs\<close>, \<^verbatim>\<open>RevokeAndAck\<close> (opaque),
  \<^verbatim>\<open>UpdateFee ChanID FeePerKw\<close>,
  \<^verbatim>\<open>ChannelReestablish ChanID NextLocalCommitHeight\<close>,
  \<^verbatim>\<open>FundingLocked ChanID NextPerCommitmentPoint\<close>, \<^verbatim>\<open>Error ChanID Data\<close>.
\<close>

datatype Message =
    UpdateAddHTLC ChannelID uint64 MilliSatoshi bytes uint32 bytes
  | UpdateFufillHTLC ChannelID uint64 bytes
  | UpdateFailHTLC ChannelID uint64 bytes
  | UpdateFailMalformedHTLC ChannelID uint64 bytes FailCode
  | CommitSig ChannelID bytes "bytes list"
  | RevokeAndAck nat
  | UpdateFee ChannelID uint32
  | ChannelReestablish ChannelID uint64
  | FundingLocked ChannelID nat
  | ErrorMsg ChannelID error

subsection \<open>Packets, circuits, payment descriptors, invoices\<close>

record htlcPacket =
  incomingChanID :: ShortChannelID
  incomingHTLCID :: uint64
  outgoingChanID :: ShortChannelID
  outgoingHTLCID :: uint64
  amount :: MilliSatoshi
  htlc :: Message
  obfuscator :: "ErrorEncrypter option"
  isRouted :: bool
  localFailure :: bool

record PaymentCircuit =
  PaymentHash :: bytes
  IncomingChanID :: ShortChannelID
  IncomingHTLCID :: uint64
  OutgoingChanID :: ShortChannelID
  OutgoingHTLCID :: uint64
  ErrorEncrypter :: "ErrorEncrypter option"

datatype updateType = Add | Fail | Settle

record PaymentDescriptor =
  EntryType :: updateType
  HtlcIndex :: uint64
  ParentIndex :: uint64
  Amount :: MilliSatoshi
  RHash :: bytes
  RPreimage :: bytes
  Timeout :: uint32
  OnionBlob :: bytes
  FailReason :: bytes

text \<open>\<^verbatim>\<open>channeldb.HTLC\<close>, an active HTLC of the channel, with the fields the resync reads.\<close>

record HTLC =
  Incoming :: bool
  htlc_HtlcIndex :: uint64
  htlc_RHash :: bytes

text \<open>\<^verbatim>\<open>invoice.Terms\<close>.\<close>

record ContractTerm =
  PaymentPreimage :: bytes
  Value :: MilliSatoshi
  Settled :: bool

text \<open>\<^verbatim>\<open>ForwardingInfo\<close>, the per-hop payload, and the decoded hop iterator: its
  forwarding instructions and what \<^verbatim>\<open>EncodeNextHop\<close> writes (\<open>None\<close> when it fails).\<close>

record ForwardingInfo =
  NextHop :: ShortChannelID
  AmountToForward :: MilliSatoshi
  OutgoingCTLV :: uint32

record HopIterator =
  ForwardingInstructions :: ForwardingInfo
  EncodeNextHop :: "bytes option"

subsection \<open>The outside world\<close>

text \<open>
  The link calls the channel state machine (\<^verbatim>\<open>lnwallet.LightningChannel\<close>), the peer,
  the switch, the invoice registry, the preimage cache and the overflow queue. Every
  call that acts on one of them is recorded, in order, in the link's \<open>trace\<close>; logging
  is recorded too, with its level and format string.
\<close>

datatype log_level = Trace | Debug | Info | Warn | Error

datatype event =
    Log log_level string
  | PeerSendMessage Message
  | PeerDisconnect string
  | PeerWipeChannel
  | SwitchForward "htlcPacket list"
  | SwitchAddCircuit PaymentCircuit
  | ChanSyncMsgCall
  | ChanProcessChanSyncMsg Message
  | ChanNextRevocationKey
  | ChanAddHTLC Message
  | ChanSettleHTLC bytes uint64
  | ChanFailHTLC uint64 bytes
  | ChanMalformedFailHTLC uint64 FailCode bytes
  | ChanReceiveHTLC Message
  | ChanReceiveHTLCSettle bytes uint64
  | ChanReceiveFailHTLC uint64 bytes
  | ChanReceiveNewCommitment bytes "bytes list"
  | ChanRevokeCurrentCommitment
  | ChanReceiveRevocation Message
  | ChanReceiveUpdateFee Amount
  | ChanSignNextCommitment
  | ChanUpdateFee Amount
  | ObfuscatorEncryptFirstHop ErrorEncrypter FailureMessage
  | RegistrySettleInvoice bytes
  | PreimageCacheAddPreimage bytes
  | HtlcUpdatesSend "HTLC list"
  | OverflowSignalFreeSlot
  | CloseDone
  | BlockEpochsCancel

text \<open>
  What the outside world answers is a parameter: a record of functions that give the
  result of each call from the trace so far and the call's arguments. A Go pair
  \<^verbatim>\<open>(value, error)\<close> is a sum with the error on the left, a lone \<^verbatim>\<open>error\<close> an option
  (\<open>None\<close> is \<^verbatim>\<open>nil\<close>). \<open>ChanSyncMsg\<close> gives the channel id and the
  \<^verbatim>\<open>NextLocalCommitHeight\<close> of the local \<^verbatim>\<open>ChannelReestablish\<close>; \<open>errorString\<close> is
  \<^verbatim>\<open>err.Error()\<close>. The constants \<^verbatim>\<open>exitHop\<close> and \<^verbatim>\<open>lnwire.OnionPacketSize\<close>,
  declared outside \<^verbatim>\<open>link.go\<close>, are parameters as well.
\<close>

record env =
  exitHop :: ShortChannelID
  OnionPacketSize :: nat
  ChanSyncMsg :: "event list \<Rightarrow> error + ChannelID \<times> uint64"
  IsPending :: "event list \<Rightarrow> bool"
  NextRevocationKey :: "event list \<Rightarrow> error + nat"
  ProcessChanSyncMsg :: "event list \<Rightarrow> Message \<Rightarrow> error + Message list"
  ActiveHtlcs :: "event list \<Rightarrow> HTLC list"
  AddHTLC :: "event list \<Rightarrow> Message \<Rightarrow> error + uint64"
  SettleHTLC :: "event list \<Rightarrow> bytes \<Rightarrow> uint64 \<Rightarrow> error option"
  FailHTLC :: "event list \<Rightarrow> uint64 \<Rightarrow> bytes \<Rightarrow> error option"
  MalformedFailHTLC :: "event list \<Rightarrow> uint64 \<Rightarrow> FailCode \<Rightarrow> bytes \<Rightarrow> error option"
  ReceiveHTLC :: "event list \<Rightarrow> Message \<Rightarrow> error + uint64"
  ReceiveHTLCSettle :: "event list \<Rightarrow> bytes \<Rightarrow> uint64 \<Rightarrow> error option"
  ReceiveFailHTLC :: "event list \<Rightarrow> uint64 \<Rightarrow> bytes \<Rightarrow> error option"
  ReceiveNewCommitment :: "event list \<Rightarrow> bytes \<Rightarrow> bytes list \<Rightarrow> error option"
  RevokeCurrentCommitment :: "event list \<Rightarrow> error + Message \<times> HTLC list"
  ReceiveRevocation :: "event list \<Rightarrow> Message \<Rightarrow> error + PaymentDescriptor list"
  ReceiveUpdateFee :: "event list \<Rightarrow> Amount \<Rightarrow> error option"
  SignNextCommitment :: "event list \<Rightarrow> error + bytes \<times> bytes list"
  FullySynced :: "event list \<Rightarrow> bool"
  IsInitiator :: "event list \<Rightarrow> bool"
  CommitFeeRate :: "event list \<Rightarrow> Amount"
  RemoteNextRevocation :: "event list \<Rightarrow> bool"
  channel_UpdateFee :: "event list \<Rightarrow> Amount \<Rightarrow> error option"
  AvailableBalance :: "event list \<Rightarrow> MilliSatoshi"
  SendMessage :: "event list \<Rightarrow> Message \<Rightarrow> error option"
  LookupInvoice :: "event list \<Rightarrow> bytes \<Rightarrow> ContractTerm option"
  SettleInvoice :: "event list \<Rightarrow> bytes \<Rightarrow> error option"
  LookupPreimage :: "event list \<Rightarrow> bytes \<Rightarrow> bytes option"
  EstimateFeePerWeight :: "event list \<Rightarrow> uint32 \<Rightarrow> error + Amount"
  GetLastChannelUpdate :: "event list \<Rightarrow> ChannelUpdate option"
  DecodeOnionObfuscator :: "event list \<Rightarrow> bytes \<Rightarrow> ErrorEncrypter \<times> FailCode"
  DecodeHopIterator :: "event list \<Rightarrow> bytes \<Rightarrow> bytes \<Rightarrow> HopIterator \<times> FailCode"
  EncryptFirstHop :: "ErrorEncrypter \<Rightarrow> FailureMessage \<Rightarrow> bytes option"
  EncodeFailure :: "FailureMessage \<Rightarrow> bytes option"
  Sum256 :: "bytes \<Rightarrow> bytes"
  htlcUpdatesAccepted :: "event list \<Rightarrow> bool"
  errorString :: "error \<Rightarrow> string"

subsection \<open>The link\<close>

text \<open>
  Modelled from the spec: the overflow queue (\<^verbatim>\<open>packetQueue\<close>) is declared outside
  \<^verbatim>\<open>link.go\<close>. The spec describes it as a FIFO of the downstream Add packets the
  channel had no room for, which re-emits its head packet into the event loop.
\<close>

type_synonym packetQueue = "htlcPacket list"

text \<open>Modelled from the spec: \<^verbatim>\<open>AddPkt\<close>, of the absent \<^verbatim>\<open>packetQueue\<close>, appends a
  packet to the queue.\<close>

definition AddPkt :: "htlcPacket \<Rightarrow> packetQueue \<Rightarrow> packetQueue" where
  "AddPkt pkt q = q @ [pkt]"

text \<open>Modelled from the spec: \<^verbatim>\<open>Length\<close>, of the absent \<^verbatim>\<open>packetQueue\<close>, is the number
  of queued packets.\<close>

definition Length :: "packetQueue \<Rightarrow> nat" where
  "Length q = length q"

text \<open>Modelled from the spec: \<^verbatim>\<open>TotalHtlcAmount\<close>, of the absent \<^verbatim>\<open>packetQueue\<close>, is
  the total amount of the queued packets, in millisatoshi.\<close>

definition TotalHtlcAmount :: "packetQueue \<Rightarrow> MilliSatoshi" where
  "TotalHtlcAmount q = sum_list (map amount q)"

text \<open>
  \<^verbatim>\<open>channelLink\<close>, with the parts of \<^verbatim>\<open>cfg\<close> the link reads. \<open>logCommitTick\<close> tells
  whether the tick channel is set (it is \<^verbatim>\<open>nil\<close> otherwise); the timer's clock is not
  modelled. \<open>ChanID\<close> and \<open>ShortChanID\<close> are the channel's two fixed identifiers.
\<close>

record channelLink =
  batchCounter :: uint32
  bestHeight :: uint32
  FwrdingPolicy :: ForwardingPolicy
  DebugHTLC :: bool
  HodlHTLC :: bool
  SyncStates :: bool
  overflowQueue :: packetQueue
  logCommitTick :: bool
  ChanID :: ChannelID
  ShortChanID :: ShortChannelID
  trace :: "event list"

definition emit :: "event \<Rightarrow> channelLink \<Rightarrow> channelLink" where
  "emit ev l = l\<lparr>trace := trace l @ [ev]\<rparr>"

text \<open>\<^verbatim>\<open>fail\<close>: log the reason and tell the peer to disconnect.\<close>

definition fail :: "string \<Rightarrow> channelLink \<Rightarrow> channelLink" where
  "fail reason l = emit (PeerDisconnect reason) (emit (Log Error reason) l)"

subsection \<open>updateCommitTx and Bandwidth\<close>

definition updateCommitTx :: "env \<Rightarrow> channelLink \<Rightarrow> error option \<times> channelLink" where
  "updateCommitTx E l =
     (let l1 = emit ChanSignNextCommitment l in
      case SignNextCommitment E (trace l) of
        Inl err \<Rightarrow>
          if err = ErrNoWindow
          then (None, emit (Log Trace ''revocation window exhausted, unable to send %v'') l1)
          else (Some err, l1)
      | Inr (theirCommitSig, htlcSigs) \<Rightarrow>
          (let l2 = emit (PeerSendMessage (CommitSig (ChanID l) theirCommitSig htlcSigs)) l1
           in (None, l2\<lparr>logCommitTick := False, batchCounter := 0\<rparr>)))"

definition Bandwidth :: "env \<Rightarrow> channelLink \<Rightarrow> MilliSatoshi" where
  "Bandwidth E l =
     (let channelBandwidth = AvailableBalance E (trace l);
          overflowBandwidth = TotalHtlcAmount (overflowQueue l)
      in channelBandwidth - overflowBandwidth)"

subsection \<open>sendHTLCError and sendMalformedHTLCError\<close>

definition sendHTLCError ::
  "env \<Rightarrow> uint64 \<Rightarrow> FailureMessage \<Rightarrow> ErrorEncrypter \<Rightarrow> channelLink \<Rightarrow> channelLink" where
  "sendHTLCError E htlcIndex failure e l =
     (let l1 = emit (ObfuscatorEncryptFirstHop e failure) l in
      case EncryptFirstHop E e failure of
        None \<Rightarrow> emit (Log Error ''unable to obfuscate error: %v'') l1
      | Some reason \<Rightarrow>
          (let l2 = emit (ChanFailHTLC htlcIndex reason) l1
           in case FailHTLC E (trace l1) htlcIndex reason of
                Some err \<Rightarrow> emit (Log Error ''unable cancel htlc: %v'') l2
              | None \<Rightarrow>
                  emit (PeerSendMessage (UpdateFailHTLC (ChanID l) htlcIndex reason)) l2))"

definition sendMalformedHTLCError ::
  "env \<Rightarrow> uint64 \<Rightarrow> FailCode \<Rightarrow> bytes \<Rightarrow> channelLink \<Rightarrow> channelLink" where
  "sendMalformedHTLCError E htlcIndex code onionBlob l =
     (let shaOnionBlob = Sum256 E onionBlob in
      case MalformedFailHTLC E (trace l) htlcIndex code shaOnionBlob of
        Some err \<Rightarrow>
          emit (Log Error ''unable cancel htlc: %v'')
            (emit (ChanMalformedFailHTLC htlcIndex code shaOnionBlob) l)
      | None \<Rightarrow>
          emit (PeerSendMessage (UpdateFailMalformedHTLC (ChanID l) htlcIndex shaOnionBlob code))
            (emit (ChanMalformedFailHTLC htlcIndex code shaOnionBlob) l))"

subsection \<open>processLockedInHtlcs\<close>

text \<open>
  The loop of \<^verbatim>\<open>processLockedInHtlcs\<close> carries the link, \<^verbatim>\<open>needUpdate\<close> and
  \<^verbatim>\<open>packetsToForward\<close>. One descriptor either hands them to the next iteration
  (\<open>Inr\<close>: the body ends or reaches \<^verbatim>\<open>continue\<close>) or makes the function return
  \<^verbatim>\<open>nil\<close> after \<^verbatim>\<open>l.fail\<close> (\<open>Inl\<close>).
\<close>

type_synonym lockedIn = "channelLink \<times> bool \<times> htlcPacket list"

text \<open>The end of the exit-hop branch: settle the HTLC with the invoice's preimage.\<close>

definition processLockedInHtlcs_settle ::
  "env \<Rightarrow> PaymentDescriptor \<Rightarrow> ContractTerm \<Rightarrow> lockedIn \<Rightarrow> channelLink + lockedIn" where
  "processLockedInHtlcs_settle E pd invoice st =
     (case st of (l, needUpdate, packetsToForward) \<Rightarrow>
      (let preimage = PaymentPreimage invoice;
           l1 = emit (ChanSettleHTLC preimage (HtlcIndex pd)) l
       in (case SettleHTLC E (trace l) preimage (HtlcIndex pd) of
             Some err \<Rightarrow> Inl (fail ''unable to settle htlc: %v'' l1)
           | None \<Rightarrow>
               (let l2 = emit (RegistrySettleInvoice (RHash pd)) l1
                in (case SettleInvoice E (trace l1) (RHash pd) of
                      Some err \<Rightarrow> Inl (fail ''unable to settle invoice: %v'' l2)
                    | None \<Rightarrow>
                        Inr (emit (PeerSendMessage
                                     (UpdateFufillHTLC (ChanID l) (HtlcIndex pd) preimage)) l2,
                             True, packetsToForward))))))"

text \<open>
  The branch \<^verbatim>\<open>case exitHop\<close>. The two cases of the time-lock \<^verbatim>\<open>switch\<close>, which the
  source wraps in \<^verbatim>\<open>if !l.cfg.DebugHTLC\<close>, carry that test in their conditions.
\<close>

definition processLockedInHtlcs_exitHop ::
  "env \<Rightarrow> PaymentDescriptor \<Rightarrow> ErrorEncrypter \<Rightarrow> ForwardingInfo \<Rightarrow> uint32 \<Rightarrow> lockedIn
     \<Rightarrow> channelLink + lockedIn" where
  "processLockedInHtlcs_exitHop E pd obfuscator' fwdInfo heightNow st =
     (case st of (l, needUpdate, packetsToForward) \<Rightarrow>
      if DebugHTLC l \<and> HodlHTLC l then
        Inr (emit (Log Warn
               ''hodl HTLC mode enabled, will not attempt to settle HTLC with sender'') l,
             needUpdate, packetsToForward)
      else if Timeout pd - expiryGraceDelta \<le> heightNow then
        Inr (sendHTLCError E (HtlcIndex pd) (FailFinalIncorrectCltvExpiry 0) obfuscator'
               (emit (Log Error
                  ''htlc(%x) has an expiry that is too soon: expiry=%v, best_height=%v'') l),
             True, packetsToForward)
      else
        (case LookupInvoice E (trace l) (RHash pd) of
           None \<Rightarrow>
             Inr (sendHTLCError E (HtlcIndex pd) FailUnknownPaymentHash obfuscator'
                    (emit (Log Error ''unable to query invoice registry:  %v'') l),
                  True, packetsToForward)
         | Some invoice \<Rightarrow>
             if Settled invoice then
               Inr (sendHTLCError E (HtlcIndex pd) FailUnknownPaymentHash obfuscator'
                      (emit (Log Warn ''Rejecting duplicate payment for hash=%x'') l),
                    True, packetsToForward)
             else if \<not> DebugHTLC l \<and> 0 < Value invoice \<and> Amount pd < Value invoice then
               Inr (sendHTLCError E (HtlcIndex pd) FailIncorrectPaymentAmount obfuscator'
                      (emit (Log Error
                         ''rejecting htlc due to incorrect amount: expected %v, received %v'') l),
                    True, packetsToForward)
             else if \<not> DebugHTLC l \<and> 0 < Value invoice
                       \<and> AmountToForward fwdInfo \<noteq> Value invoice then
               Inr (sendHTLCError E (HtlcIndex pd) FailIncorrectPaymentAmount obfuscator'
                      (emit (Log Error
                         ''Onion payload of incoming htlc(%x) has incorrect value: expected %v, got %v'') l),
                    True, packetsToForward)
             else
               (let expectedHeight = heightNow + TimeLockDelta (FwrdingPolicy l) in
                if \<not> DebugHTLC l \<and> OutgoingCTLV fwdInfo < expectedHeight then
                  Inr (sendHTLCError E (HtlcIndex pd)
                         (FailFinalIncorrectCltvExpiry (OutgoingCTLV fwdInfo)) obfuscator'
                         (emit (Log Error
                            ''Onion payload of incoming htlc(%x) has incorrect time-lock: expected %v, got %v'') l),
                       True, packetsToForward)
                else if \<not> DebugHTLC l \<and> Timeout pd \<noteq> OutgoingCTLV fwdInfo then
                  Inr (sendHTLCError E (HtlcIndex pd)
                         (FailFinalIncorrectCltvExpiry (OutgoingCTLV fwdInfo)) obfuscator'
                         (emit (Log Error
                            ''HTLC(%x) has incorrect time-lock: expected %v, got %v'') l),
                       True, packetsToForward)
                else processLockedInHtlcs_settle E pd invoice st)))"

text \<open>The \<^verbatim>\<open>default\<close> branch: this node forwards the HTLC to another channel.\<close>

definition processLockedInHtlcs_forward ::
  "env \<Rightarrow> PaymentDescriptor \<Rightarrow> ErrorEncrypter \<Rightarrow> HopIterator \<Rightarrow> ForwardingInfo \<Rightarrow> uint32
     \<Rightarrow> lockedIn \<Rightarrow> channelLink + lockedIn" where
  "processLockedInHtlcs_forward E pd obfuscator' chanIterator fwdInfo heightNow st =
     (case st of (l, needUpdate, packetsToForward) \<Rightarrow>
      let timeDelta = TimeLockDelta (FwrdingPolicy l) in
      if Timeout pd - timeDelta \<le> heightNow then
        (let l1 = emit (Log Error
                   ''htlc(%x) has an expiry that is too soon: outgoing_expiry=%v, best_height=%v'') l;
             failure = (case GetLastChannelUpdate E (trace l1) of
                          None \<Rightarrow> FailTemporaryChannelFailure None
                        | Some update \<Rightarrow> FailExpiryTooSoon update)
         in Inr (sendHTLCError E (HtlcIndex pd) failure obfuscator' l1, True, packetsToForward))
      else if Amount pd < MinHTLC (FwrdingPolicy l) then
        (let l1 = emit (Log Error
                   ''Incoming htlc(%x) is too small: min_htlc=%v, htlc_value=%v'') l;
             failure = (case GetLastChannelUpdate E (trace l1) of
                          None \<Rightarrow> FailTemporaryChannelFailure None
                        | Some update \<Rightarrow> FailAmountBelowMinimum (Amount pd) update)
         in Inr (sendHTLCError E (HtlcIndex pd) failure obfuscator' l1, True, packetsToForward))
      else
        (let expectedFee = ExpectedFee (FwrdingPolicy l) (AmountToForward fwdInfo) in
         if Amount pd - expectedFee < AmountToForward fwdInfo then
           (let l1 = emit (Log Error
                      ''Incoming htlc(%x) has insufficient fee: expected %v, got %v'') l;
                failure = (case GetLastChannelUpdate E (trace l1) of
                             None \<Rightarrow> FailTemporaryChannelFailure None
                           | Some update \<Rightarrow> FailFeeInsufficient (Amount pd) update)
            in Inr (sendHTLCError E (HtlcIndex pd) failure obfuscator' l1, True,
                    packetsToForward))
         else if Timeout pd - timeDelta < OutgoingCTLV fwdInfo then
           (let l1 = emit (Log Error
                      ''Incoming htlc(%x) has incorrect time-lock value: expected at least %v block delta, got %v block delta'') l
            in case GetLastChannelUpdate E (trace l1) of
                 None \<Rightarrow>
                   Inl (fail ''unable to create channel update while handling the error: %v'' l1)
               | Some update \<Rightarrow>
                   Inr (sendHTLCError E (HtlcIndex pd)
                          (FailIncorrectCltvExpiry (Timeout pd) update) obfuscator' l1,
                        True, packetsToForward))
         else
           (case EncodeNextHop chanIterator of
              None \<Rightarrow>
                Inr (sendHTLCError E (HtlcIndex pd) (FailTemporaryChannelFailure None) obfuscator'
                       (emit (Log Error ''unable to encode the remaining route %v'') l),
                     True, packetsToForward)
            | Some blob \<Rightarrow>
                (let addMsg = UpdateAddHTLC 0 0 (AmountToForward fwdInfo) (RHash pd)
                                (OutgoingCTLV fwdInfo) blob;
                     updatePacket = \<lparr>incomingChanID = ShortChanID l,
                                     incomingHTLCID = HtlcIndex pd,
                                     outgoingChanID = NextHop fwdInfo,
                                     outgoingHTLCID = 0,
                                     amount = AmountToForward fwdInfo,
                                     htlc = addMsg,
                                     obfuscator = Some obfuscator',
                                     isRouted = False,
                                     localFailure = False\<rparr>
                 in Inr (l, needUpdate, packetsToForward @ [updatePacket])))))"

text \<open>The branch \<^verbatim>\<open>case lnwallet.Add\<close>: decode the onion, then act as exit hop or forward.\<close>

definition processLockedInHtlcs_Add ::
  "env \<Rightarrow> PaymentDescriptor \<Rightarrow> lockedIn \<Rightarrow> channelLink + lockedIn" where
  "processLockedInHtlcs_Add E pd st =
     (case st of (l, needUpdate, packetsToForward) \<Rightarrow>
      let onionBlob = copy_into (OnionPacketSize E) (OnionBlob pd) in
      case DecodeOnionObfuscator E (trace l) onionBlob of (obfuscator', failureCode) \<Rightarrow>
      if failureCode \<noteq> CodeNone then
        Inr (emit (Log Error ''unable to decode onion obfuscator: %v'')
               (sendMalformedHTLCError E (HtlcIndex pd) failureCode onionBlob l),
             True, packetsToForward)
      else
        (case DecodeHopIterator E (trace l) onionBlob (RHash pd) of
           (chanIterator, failureCode) \<Rightarrow>
         if failureCode \<noteq> CodeNone then
           Inr (emit (Log Error ''unable to decode onion hop iterator: %v'')
                  (sendMalformedHTLCError E (HtlcIndex pd) failureCode onionBlob l),
                True, packetsToForward)
         else
           (let heightNow = bestHeight l;
                fwdInfo = ForwardingInstructions chanIterator
            in if NextHop fwdInfo = exitHop E
               then processLockedInHtlcs_exitHop E pd obfuscator' fwdInfo heightNow st
               else processLockedInHtlcs_forward E pd obfuscator' chanIterator fwdInfo
                      heightNow st)))"

text \<open>The body of the loop: one payment descriptor.\<close>

definition processLockedInHtlcs_body ::
  "env \<Rightarrow> PaymentDescriptor \<Rightarrow> lockedIn \<Rightarrow> channelLink + lockedIn" where
  "processLockedInHtlcs_body E pd st =
     (case st of (l, needUpdate, packetsToForward) \<Rightarrow>
      (case EntryType pd of
        Settle \<Rightarrow>
          (let settlePacket = \<lparr>incomingChanID = 0, incomingHTLCID = 0,
                                outgoingChanID = ShortChanID l,
                                outgoingHTLCID = ParentIndex pd,
                                amount = Amount pd,
                                htlc = UpdateFufillHTLC 0 0 (RPreimage pd),
                                obfuscator = None, isRouted = False, localFailure = False\<rparr>
           in Inr (emit OverflowSignalFreeSlot l, needUpdate,
                   packetsToForward @ [settlePacket]))
      | Fail \<Rightarrow>
          (let failPacket = \<lparr>incomingChanID = 0, incomingHTLCID = 0,
                              outgoingChanID = ShortChanID l,
                              outgoingHTLCID = ParentIndex pd,
                              amount = Amount pd,
                              htlc = UpdateFailHTLC 0 0 (FailReason pd),
                              obfuscator = None, isRouted = False, localFailure = False\<rparr>
           in Inr (emit OverflowSignalFreeSlot l, needUpdate,
                   packetsToForward @ [failPacket]))
      | Add \<Rightarrow> processLockedInHtlcs_Add E pd st))"

fun processLockedInHtlcs_loop ::
  "env \<Rightarrow> PaymentDescriptor list \<Rightarrow> lockedIn \<Rightarrow> channelLink + lockedIn" where
  "processLockedInHtlcs_loop E [] st = Inr st"
| "processLockedInHtlcs_loop E (pd # pds) st =
     (case processLockedInHtlcs_body E pd st of
        Inl l \<Rightarrow> Inl l
      | Inr st' \<Rightarrow> processLockedInHtlcs_loop E pds st')"

text \<open>The result is the packets to forward (\<^verbatim>\<open>nil\<close> is the empty list) and the link.\<close>

definition processLockedInHtlcs ::
  "env \<Rightarrow> PaymentDescriptor list \<Rightarrow> channelLink \<Rightarrow> htlcPacket list \<times> channelLink" where
  "processLockedInHtlcs E paymentDescriptors l =
     (case processLockedInHtlcs_loop E paymentDescriptors (l, False, []) of
        Inl l' \<Rightarrow> ([], l')
      | Inr (l', needUpdate, packetsToForward) \<Rightarrow>
          if needUpdate then
            (case updateCommitTx E l' of
               (Some err, l'') \<Rightarrow> ([], fail ''unable to update commitment: %v'' l'')
             | (None, l'') \<Rightarrow> (packetsToForward, l''))
          else (packetsToForward, l'))"

subsection \<open>handleDownStreamPkt\<close>

text \<open>The end of \<^verbatim>\<open>handleDownStreamPkt\<close>: count the update, and commit a full batch
  or a settle at once.\<close>

definition handleDownStreamPkt_batch :: "env \<Rightarrow> bool \<Rightarrow> channelLink \<Rightarrow> channelLink" where
  "handleDownStreamPkt_batch E isSettle l =
     (let l1 = l\<lparr>batchCounter := batchCounter l + 1\<rparr> in
      if 10 \<le> batchCounter l1 \<or> isSettle then
        (case updateCommitTx E l1 of
           (Some err, l2) \<Rightarrow> fail ''unable to update commitment: %v'' l2
         | (None, l2) \<Rightarrow> l2)
      else l1)"

text \<open>
  The packet's message is a pointer: stamping \<^verbatim>\<open>htlc.ChanID\<close> changes the message
  inside the packet too, so the packet put on the overflow queue carries the stamp.
  \<^verbatim>\<open>go l.cfg.Switch.forward(failPkt)\<close> is recorded where the goroutine is started.
\<close>

definition handleDownStreamPkt :: "env \<Rightarrow> htlcPacket \<Rightarrow> bool \<Rightarrow> channelLink \<Rightarrow> channelLink" where
  "handleDownStreamPkt E pkt isReProcess l =
     (case htlc pkt of
        UpdateAddHTLC cid i amt paymentHash expiry blob \<Rightarrow>
          (let msg = UpdateAddHTLC (ChanID l) i amt paymentHash expiry blob;
               l1 = emit (ChanAddHTLC msg) l
           in case AddHTLC E (trace l) msg of
                Inl err \<Rightarrow>
                  if err = ErrMaxHTLCNumber then
                    (emit (Log Info
                       ''Downstream htlc add update with payment hash(%x) have been added to reprocessing queue, batch: %v'') l1)
                      \<lparr>overflowQueue := AddPkt (pkt\<lparr>htlc := msg\<rparr>) (overflowQueue l1)\<rparr>
                  else
                    (let l2 = emit (Log Warn ''Unable to handle downstream add HTLC: %v'') l1;
                         failure = FailTemporaryChannelFailure None
                     in case (case obfuscator pkt of
                                None \<Rightarrow> (EncodeFailure E failure, True, l2)
                              | Some e \<Rightarrow>
                                  (EncryptFirstHop E e failure, False,
                                   emit (ObfuscatorEncryptFirstHop e failure) l2)) of
                          (None, localFailure', l3) \<Rightarrow>
                            emit (Log Error (if localFailure' then ''unable to encode failure: %v''
                                             else ''unable to obfuscate error: %v'')) l3
                        | (Some reason, localFailure', l3) \<Rightarrow>
                            (let failPkt = \<lparr>incomingChanID = incomingChanID pkt,
                                             incomingHTLCID = incomingHTLCID pkt,
                                             outgoingChanID = 0, outgoingHTLCID = 0,
                                             amount = amt,
                                             htlc = UpdateFailHTLC 0 0 reason,
                                             obfuscator = None,
                                             isRouted = True,
                                             localFailure = localFailure'\<rparr>
                             in emit (SwitchForward [failPkt]) l3))
              | Inr index \<Rightarrow>
                  (let l2 = emit (Log Trace
                              ''Received downstream htlc: payment_hash=%x, local_log_index=%v, batch_size=%v'') l1;
                       l3 = emit (SwitchAddCircuit
                                    \<lparr>PaymentHash = paymentHash,
                                     IncomingChanID = incomingChanID pkt,
                                     IncomingHTLCID = incomingHTLCID pkt,
                                     OutgoingChanID = ShortChanID l,
                                     OutgoingHTLCID = index,
                                     ErrorEncrypter = obfuscator pkt\<rparr>) l2;
                       l4 = emit (PeerSendMessage
                                    (UpdateAddHTLC (ChanID l) index amt paymentHash expiry blob)) l3
                   in handleDownStreamPkt_batch E False l4))
      | UpdateFufillHTLC cid i preimage \<Rightarrow>
          (let l1 = emit (ChanSettleHTLC preimage (incomingHTLCID pkt)) l
           in case SettleHTLC E (trace l) preimage (incomingHTLCID pkt) of
                Some err \<Rightarrow> fail ''unable to settle incoming HTLC: %v'' l1
              | None \<Rightarrow>
                  handleDownStreamPkt_batch E True
                    (emit (PeerSendMessage
                             (UpdateFufillHTLC (ChanID l) (incomingHTLCID pkt) preimage)) l1))
      | UpdateFailHTLC cid i reason \<Rightarrow>
          (let l1 = emit (ChanFailHTLC (incomingHTLCID pkt) reason) l
           in case FailHTLC E (trace l) (incomingHTLCID pkt) reason of
                Some err \<Rightarrow> emit (Log Error ''unable to cancel HTLC: %v'') l1
              | None \<Rightarrow>
                  handleDownStreamPkt_batch E True
                    (emit (PeerSendMessage
                             (UpdateFailHTLC (ChanID l) (incomingHTLCID pkt) reason)) l1))
      | _ \<Rightarrow> handleDownStreamPkt_batch E False l)"

subsection \<open>handleUpstreamMsg\<close>

text \<open>
  In the \<^verbatim>\<open>CommitSig\<close> case the link offers the current HTLCs on \<^verbatim>\<open>htlcUpdates\<close> and
  returns if \<^verbatim>\<open>quit\<close> is closed first: \<open>htlcUpdatesAccepted\<close> says which of the two
  happens. The goroutines started here (adding a preimage to the cache, forwarding
  the locked-in packets) are recorded where they are started.
\<close>

definition handleUpstreamMsg :: "env \<Rightarrow> Message \<Rightarrow> channelLink \<Rightarrow> channelLink" where
  "handleUpstreamMsg E msg l =
     (case msg of
        UpdateAddHTLC cid i amt paymentHash expiry blob \<Rightarrow>
          (let l1 = emit (ChanReceiveHTLC msg) l
           in case ReceiveHTLC E (trace l) msg of
                Inl err \<Rightarrow> fail ''unable to handle upstream add HTLC: %v'' l1
              | Inr index \<Rightarrow>
                  emit (Log Trace
                     ''Receive upstream htlc with payment hash(%x), assigning index: %v'') l1)
      | UpdateFufillHTLC cid idx pre \<Rightarrow>
          (let l1 = emit (ChanReceiveHTLCSettle pre idx) l
           in case ReceiveHTLCSettle E (trace l) pre idx of
                Some err \<Rightarrow> fail ''unable to handle upstream settle HTLC: %v'' l1
              | None \<Rightarrow> emit (PreimageCacheAddPreimage pre) l1)
      | UpdateFailMalformedHTLC cid i shaOnionBlob code \<Rightarrow>
          (case (case code of
                   CodeInvalidOnionVersion \<Rightarrow> (l, FailInvalidOnionVersion shaOnionBlob)
                 | CodeInvalidOnionHmac \<Rightarrow> (l, FailInvalidOnionHmac shaOnionBlob)
                 | CodeInvalidOnionKey \<Rightarrow> (l, FailInvalidOnionKey shaOnionBlob)
                 | _ \<Rightarrow> (emit (Log Error ''Unknown failure code: %v'') l,
                          FailTemporaryChannelFailure None)) of
             (l1, failure) \<Rightarrow>
               (case EncodeFailure E failure of
                  None \<Rightarrow> emit (Log Error ''unable to encode malformed error: %v'') l1
                | Some b \<Rightarrow>
                    (let l2 = emit (ChanReceiveFailHTLC i b) l1
                     in case ReceiveFailHTLC E (trace l1) i b of
                          Some err \<Rightarrow> fail ''unable to handle upstream fail HTLC: %v'' l2
                        | None \<Rightarrow> l2)))
      | UpdateFailHTLC cid idx reason \<Rightarrow>
          (let l1 = emit (ChanReceiveFailHTLC idx reason) l
           in case ReceiveFailHTLC E (trace l) idx reason of
                Some err \<Rightarrow> fail ''unable to handle upstream fail HTLC: %v'' l1
              | None \<Rightarrow> l1)
      | CommitSig cid sig htlcSigs \<Rightarrow>
          (let l1 = emit (ChanReceiveNewCommitment sig htlcSigs) l
           in case ReceiveNewCommitment E (trace l) sig htlcSigs of
                Some err \<Rightarrow>
                  fail ''ChannelPoint(%v): unable to accept new commitment: %v''
                    (if err = InvalidCommitSigError
                     then emit (PeerSendMessage (ErrorMsg (ChanID l) err)) l1
                     else l1)
              | None \<Rightarrow>
                  (let l2 = emit ChanRevokeCurrentCommitment l1
                   in case RevokeCurrentCommitment E (trace l1) of
                        Inl err \<Rightarrow> emit (Log Error ''unable to revoke commitment: %v'') l2
                      | Inr (nextRevocation, currentHtlcs) \<Rightarrow>
                          (let l3 = emit (PeerSendMessage nextRevocation) l2 in
                           if \<not> htlcUpdatesAccepted E (trace l3) then l3
                           else
                             (let l4 = (emit (HtlcUpdatesSend currentHtlcs) l3)
                                         \<lparr>logCommitTick := True\<rparr>
                              in if FullySynced E (trace l4) then l4
                                 else (case updateCommitTx E l4 of
                                         (Some err, l5) \<Rightarrow>
                                           fail ''unable to update commitment: %v'' l5
                                       | (None, l5) \<Rightarrow> l5)))))
      | RevokeAndAck r \<Rightarrow>
          (let l1 = emit (ChanReceiveRevocation msg) l
           in case ReceiveRevocation E (trace l) msg of
                Inl err \<Rightarrow> fail ''unable to accept revocation: %v'' l1
              | Inr htlcs \<Rightarrow>
                  (case processLockedInHtlcs E htlcs l1 of
                     (htlcsToForward, l2) \<Rightarrow> emit (SwitchForward htlcsToForward) l2))
      | UpdateFee cid feePerKw \<Rightarrow>
          (let fee = (ucast feePerKw :: Amount);
               l1 = emit (ChanReceiveUpdateFee fee) l
           in case ReceiveUpdateFee E (trace l) fee of
                Some err \<Rightarrow> fail ''error receiving fee update: %v'' l1
              | None \<Rightarrow> l1)
      | _ \<Rightarrow> l)"

subsection \<open>Fee updates\<close>

definition EligibleToForward :: "env \<Rightarrow> channelLink \<Rightarrow> bool" where
  "EligibleToForward E l = RemoteNextRevocation E (trace l)"

definition sampleNetworkFee :: "env \<Rightarrow> channelLink \<Rightarrow> (error + Amount) \<times> channelLink" where
  "sampleNetworkFee E l =
     (case EstimateFeePerWeight E (trace l) 3 of
        Inl err \<Rightarrow> (Inl err, l)
      | Inr feePerWeight \<Rightarrow>
          (let feePerKw = feePerWeight * 1000
           in (Inr feePerKw,
               emit (Log Debug
                  ''ChannelLink(%v): sampled fee rate for 3 block conf: %v sat/kw'') l)))"

definition updateChannelFee :: "env \<Rightarrow> Amount \<Rightarrow> channelLink \<Rightarrow> error option \<times> channelLink" where
  "updateChannelFee E feePerKw l =
     (let l1 = emit (Log Info ''ChannelPoint(%v): updating commit fee to %v sat/kw'') l in
      if \<not> EligibleToForward E l1 then
        (None, emit (Log Debug ''ChannelPoint(%v): skipping fee update for inactive channel'') l1)
      else
        (let l2 = emit (ChanUpdateFee feePerKw) l1
         in case channel_UpdateFee E (trace l1) feePerKw of
              Some err \<Rightarrow> (Some err, l2)
            | None \<Rightarrow>
                (let msg = UpdateFee (ChanID l) (ucast feePerKw);
                     l3 = emit (PeerSendMessage msg) l2
                 in case SendMessage E (trace l2) msg of
                      Some err \<Rightarrow> (Some err, l3)
                    | None \<Rightarrow> updateCommitTx E l3)))"

subsection \<open>syncChanStates\<close>

text \<open>
  The \<^verbatim>\<open>select\<close> of \<^verbatim>\<open>syncChanStates\<close> takes the first message from upstream, the
  shutdown signal or the 30 second deadline: which one is an input.
\<close>

datatype sync_select = FromUpstream Message | FromQuit | FromDeadline

text \<open>The set \<^verbatim>\<open>htlcsSettled\<close>: the ids of the settle messages among those re-sent.\<close>

fun htlcsSettled_of :: "Message list \<Rightarrow> uint64 set" where
  "htlcsSettled_of [] = {}"
| "htlcsSettled_of (msg # msgs) =
     (case msg of
        UpdateFufillHTLC cid i preimage \<Rightarrow> insert i (htlcsSettled_of msgs)
      | _ \<Rightarrow> htlcsSettled_of msgs)"

text \<open>The loop over \<^verbatim>\<open>activeHTLCs\<close>.\<close>

fun syncChanStates_scan ::
  "env \<Rightarrow> uint64 set \<Rightarrow> HTLC list \<Rightarrow> channelLink \<Rightarrow> error option \<times> channelLink" where
  "syncChanStates_scan E htlcsSettled [] l = (None, l)"
| "syncChanStates_scan E htlcsSettled (h # hs) l =
     (if \<not> Incoming h then syncChanStates_scan E htlcsSettled hs l
      else if htlc_HtlcIndex h \<in> htlcsSettled then syncChanStates_scan E htlcsSettled hs l
      else
        (case LookupPreimage E (trace l) (htlc_RHash h) of
           None \<Rightarrow> syncChanStates_scan E htlcsSettled hs l
         | Some preimage \<Rightarrow>
             (case SettleHTLC E (trace l) (copy_into 32 preimage) (htlc_HtlcIndex h) of
                Some err \<Rightarrow>
                  (Some err,
                   fail ''unable to settle htlc: %v''
                     (emit (ChanSettleHTLC (copy_into 32 preimage) (htlc_HtlcIndex h)) l))
              | None \<Rightarrow>
                  (case SettleInvoice E
                          (trace (emit (ChanSettleHTLC (copy_into 32 preimage)
                                          (htlc_HtlcIndex h)) l))
                          (htlc_RHash h) of
                     Some err \<Rightarrow>
                       (Some err,
                        fail ''unable to settle invoice: %v''
                          (emit (RegistrySettleInvoice (htlc_RHash h))
                             (emit (ChanSettleHTLC (copy_into 32 preimage)
                                      (htlc_HtlcIndex h)) l)))
                   | None \<Rightarrow>
                       syncChanStates_scan E htlcsSettled hs
                         (emit (PeerSendMessage
                                  (UpdateFufillHTLC (ChanID l) (htlc_HtlcIndex h)
                                     (copy_into 32 preimage)))
                            ((emit (RegistrySettleInvoice (htlc_RHash h))
                                (emit (ChanSettleHTLC (copy_into 32 preimage)
                                         (htlc_HtlcIndex h)) l))
                               \<lparr>batchCounter := batchCounter l + 1\<rparr>))))))"

text \<open>What follows the \<^verbatim>\<open>select\<close>: note the re-sent settles, then scan the active HTLCs.\<close>

definition syncChanStates_settle ::
  "env \<Rightarrow> Message list \<Rightarrow> channelLink \<Rightarrow> error option \<times> channelLink" where
  "syncChanStates_settle E msgsToReSend l =
     (let htlcsSettled = htlcsSettled_of msgsToReSend;
          activeHTLCs = ActiveHtlcs E (trace l)
      in syncChanStates_scan E htlcsSettled activeHTLCs l)"

definition syncChanStates ::
  "env \<Rightarrow> sync_select \<Rightarrow> channelLink \<Rightarrow> error option \<times> channelLink" where
  "syncChanStates E sel l =
     (let l0 = emit ChanSyncMsgCall
                 (emit (Log Info ''Attempting to re-resynchronize ChannelPoint(%v)'') l)
      in case ChanSyncMsg E (trace l) of
           Inl err \<Rightarrow>
             (Some (ErrOther ''unable to generate chan sync message for ChannelPoint(%v)''), l0)
         | Inr (cid, localHeight) \<Rightarrow>
             (let l1 = emit (PeerSendMessage (ChannelReestablish cid localHeight)) l0
              in case SendMessage E (trace l0) (ChannelReestablish cid localHeight) of
                   Some err \<Rightarrow>
                     (Some (ErrOther ''Unable to send chan sync message for ChannelPoint(%v)''), l1)
                 | None \<Rightarrow>
                     (case sel of
                        FromQuit \<Rightarrow> (Some (ErrOther ''shutting down''), l1)
                      | FromDeadline \<Rightarrow>
                          (Some (ErrOther ''didn't receive ChannelReestablish before deadline''),
                           l1)
                      | FromUpstream msg \<Rightarrow>
                          (case msg of
                             ChannelReestablish rcid remoteHeight \<Rightarrow>
                               (case (if remoteHeight = 1 \<and> localHeight = 1
                                         \<and> \<not> IsPending E (trace l1)
                                      then
                                        (let l2 = emit ChanNextRevocationKey
                                                    (emit (Log Info
                                                       ''ChannelPoint(%v): resending FundingLocked message to peer'') l1)
                                         in case NextRevocationKey E (trace l1) of
                                              Inl err \<Rightarrow>
                                                (Some (ErrOther
                                                   ''unable to create next revocation: %v''), l2)
                                            | Inr nextRevocation \<Rightarrow>
                                                (case SendMessage E (trace l2)
                                                        (FundingLocked (ChanID l) nextRevocation) of
                                                   Some err \<Rightarrow>
                                                     (Some (ErrOther
                                                        ''unable to re-send FundingLocked: %v''),
                                                      emit (PeerSendMessage
                                                              (FundingLocked (ChanID l)
                                                                 nextRevocation)) l2)
                                                 | None \<Rightarrow>
                                                     (None,
                                                      emit (PeerSendMessage
                                                              (FundingLocked (ChanID l)
                                                                 nextRevocation)) l2)))
                                      else (None, l1)) of
                                  (Some err, l3) \<Rightarrow> (Some err, l3)
                                | (None, l3) \<Rightarrow>
                                    (let l4 = emit (ChanProcessChanSyncMsg msg)
                                                (emit (Log Info
                                                   ''Received re-establishment message from remote side for channel(%v)'') l3)
                                     in case ProcessChanSyncMsg E (trace l3) msg of
                                          Inl err \<Rightarrow>
                                            (Some (ErrOther
                                               ''unable to handle upstream reestablish message: %v''),
                                             l4)
                                        | Inr msgsToReSend \<Rightarrow>
                                            (let l5 = (if 0 < length msgsToReSend
                                                       then emit (Log Info
                                                              ''Sending %v updates to synchronize the state for ChannelPoint(%v)'') l4
                                                       else l4);
                                                 l6 = foldl (\<lambda>l' m. emit (PeerSendMessage m) l')
                                                        l5 msgsToReSend
                                             in syncChanStates_settle E msgsToReSend l6)))
                           | _ \<Rightarrow>
                               (Some (ErrOther
                                  ''first message sent to sync should be ChannelReestablish, instead received: %T''),
                                l1)))))"

subsection \<open>htlcManager\<close>

text \<open>
  Each iteration of the loop of \<^verbatim>\<open>htlcManager\<close> takes what its \<^verbatim>\<open>select\<close> receives:
  which channel is ready, and with what value, is an input. \<open>BlockEpoch None\<close> is the
  closed epoch channel. \<open>OverflowPkt\<close> delivers the head of the overflow queue, and
  \<open>LogCommitTick\<close> needs the tick channel to be set; where the \<^verbatim>\<open>select\<close> cannot take
  that case (empty queue, \<^verbatim>\<open>nil\<close> channel) the iteration does nothing.
\<close>

datatype linkControl = policyUpdate ForwardingPolicy bool | getBandwidthCmd

datatype select_event =
    BlockEpoch "uint32 option"
  | UnilateralClosure
  | LogCommitTick
  | BatchTick
  | OverflowPkt
  | Downstream htlcPacket
  | Upstream Message
  | LinkControl linkControl
  | Quit

text \<open>How an iteration ends: the loop goes on, \<^verbatim>\<open>break out\<close>, or a failed type
  assertion panics.\<close>

datatype outcome = Loop | BreakOut | Panic

fun isUpdateAddHTLC :: "Message \<Rightarrow> bool" where
  "isUpdateAddHTLC (UpdateAddHTLC cid i amt paymentHash expiry blob) = True"
| "isUpdateAddHTLC _ = False"

text \<open>The \<^verbatim>\<open>policyUpdate\<close> case of the control channel; \<open>done\<close> tells whether
  \<^verbatim>\<open>req.done\<close> is not \<^verbatim>\<open>nil\<close>.\<close>

definition htlcManager_policyUpdate ::
  "ForwardingPolicy \<Rightarrow> bool \<Rightarrow> channelLink \<Rightarrow> channelLink" where
  "htlcManager_policyUpdate policy done l =
     (let l1 = (if BaseFee policy \<noteq> 0
                then l\<lparr>FwrdingPolicy := (FwrdingPolicy l)\<lparr>BaseFee := BaseFee policy\<rparr>\<rparr>
                else l);
          l2 = (if FeeRate policy \<noteq> 0
                then l1\<lparr>FwrdingPolicy := (FwrdingPolicy l1)\<lparr>FeeRate := FeeRate policy\<rparr>\<rparr>
                else l1);
          l3 = (if TimeLockDelta policy \<noteq> 0
                then l2\<lparr>FwrdingPolicy :=
                          (FwrdingPolicy l2)\<lparr>TimeLockDelta := TimeLockDelta policy\<rparr>\<rparr>
                else l2)
      in if done then emit CloseDone l3 else l3)"

definition htlcManager_select ::
  "env \<Rightarrow> select_event \<Rightarrow> channelLink \<Rightarrow> outcome \<times> channelLink" where
  "htlcManager_select E ev l =
     (case ev of
        BlockEpoch None \<Rightarrow> (BreakOut, l)
      | BlockEpoch (Some height) \<Rightarrow>
          (let l1 = l\<lparr>bestHeight := height\<rparr> in
           if \<not> IsInitiator E (trace l1) then (Loop, l1)
           else
             (case sampleNetworkFee E l1 of
                (Inl err, l2) \<Rightarrow>
                  (Loop, emit (Log Error ''unable to sample network fee: %v'') l2)
              | (Inr feePerKw, l2) \<Rightarrow>
                  (let commitFee = CommitFeeRate E (trace l2) in
                   if \<not> shouldAdjustCommitFee feePerKw commitFee then (Loop, l2)
                   else
                     (case updateChannelFee E feePerKw l2 of
                        (Some err, l3) \<Rightarrow>
                          (Loop, emit (Log Error ''unable to update fee rate: %v'') l3)
                      | (None, l3) \<Rightarrow> (Loop, l3)))))
      | UnilateralClosure \<Rightarrow>
          (BreakOut,
           emit PeerWipeChannel
             (emit (Log Warn ''Remote peer has closed ChannelPoint(%v) on-chain'') l))
      | LogCommitTick \<Rightarrow>
          if \<not> logCommitTick l then (Loop, l)
          else if FullySynced E (trace l) then (Loop, l)
          else
            (case updateCommitTx E l of
               (Some err, l1) \<Rightarrow> (BreakOut, fail ''unable to update commitment: %v'' l1)
             | (None, l1) \<Rightarrow> (Loop, l1))
      | BatchTick \<Rightarrow>
          if batchCounter l = 0 then (Loop, l)
          else
            (case updateCommitTx E l of
               (Some err, l1) \<Rightarrow> (BreakOut, fail ''unable to update commitment: %v'' l1)
             | (None, l1) \<Rightarrow> (Loop, l1))
      | OverflowPkt \<Rightarrow>
          (case overflowQueue l of
             [] \<Rightarrow> (Loop, l)
           | packet # q \<Rightarrow>
               if \<not> isUpdateAddHTLC (htlc packet) then (Panic, l\<lparr>overflowQueue := q\<rparr>)
               else
                 (Loop,
                  handleDownStreamPkt E packet True
                    (emit (Log Trace
                       ''Reprocessing downstream add update with payment hash(%x)'')
                       (l\<lparr>overflowQueue := q\<rparr>))))
      | Downstream pkt \<Rightarrow>
          if isUpdateAddHTLC (htlc pkt) \<and> Length (overflowQueue l) \<noteq> 0 then
            (Loop,
             (emit (Log Info
                ''Downstream htlc add update with payment hash(%x) have been added to reprocessing queue, batch_size=%v'') l)
               \<lparr>overflowQueue := AddPkt pkt (overflowQueue l)\<rparr>)
          else (Loop, handleDownStreamPkt E pkt False l)
      | Upstream msg \<Rightarrow> (Loop, handleUpstreamMsg E msg l)
      | LinkControl cmd \<Rightarrow>
          (case cmd of
             policyUpdate policy done \<Rightarrow> (Loop, htlcManager_policyUpdate policy done l)
           | _ \<Rightarrow> (Loop, l))
      | Quit \<Rightarrow> (BreakOut, l))"

text \<open>The loop, over the events its \<^verbatim>\<open>select\<close> receives one after the other. With no
  event left the goroutine still waits in the \<^verbatim>\<open>select\<close>: the outcome is \<open>Loop\<close>.\<close>

fun htlcManager_loop :: "env \<Rightarrow> select_event list \<Rightarrow> channelLink \<Rightarrow> outcome \<times> channelLink" where
  "htlcManager_loop E [] l = (Loop, l)"
| "htlcManager_loop E (ev # evs) l =
     (case htlcManager_select E ev l of
        (Loop, l') \<Rightarrow> htlcManager_loop E evs l'
      | (out, l') \<Rightarrow> (out, l'))"

text \<open>The deferred function of \<^verbatim>\<open>htlcManager\<close>, run when the goroutine returns.\<close>

definition htlcManager_deferred :: "channelLink \<Rightarrow> channelLink" where
  "htlcManager_deferred l =
     emit (Log Info ''ChannelLink(%v) has exited'') (emit BlockEpochsCancel l)"

definition htlcManager ::
  "env \<Rightarrow> sync_select \<Rightarrow> select_event list \<Rightarrow> channelLink \<Rightarrow> outcome \<times> channelLink" where
  "htlcManager E sel evs l =
     (let l1 = emit (Log Info ''HTLC manager for ChannelPoint(%v) started, bandwidth=%v'') l in
      case (if SyncStates l1 then syncChanStates E sel l1 else (None, l1)) of
        (Some err, l2) \<Rightarrow> (BreakOut, htlcManager_deferred (fail (errorString E err) l2))
      | (None, l2) \<Rightarrow>
          (case htlcManager_loop E evs l2 of
             (Loop, l3) \<Rightarrow> (Loop, l3)
           | (out, l3) \<Rightarrow> (out, htlcManager_deferred l3)))"

text \<open>\<^verbatim>\<open>NewChannelLink\<close>, from the configuration it reads and the channel's identifiers.\<close>

definition NewChannelLink ::
  "ForwardingPolicy \<Rightarrow> bool \<Rightarrow> bool \<Rightarrow> bool \<Rightarrow> ChannelID \<Rightarrow> ShortChannelID \<Rightarrow> uint32
     \<Rightarrow> channelLink" where
  "NewChannelLink policy debugHTLC hodlHTLC syncStates cid scid currentHeight =
     \<lparr>batchCounter = 0, bestHeight = currentHeight, FwrdingPolicy = policy,
      DebugHTLC = debugHTLC, HodlHTLC = hodlHTLC, SyncStates = syncStates,
      overflowQueue = [], logCommitTick = False, ChanID = cid, ShortChanID = scid,
      trace = []\<rparr>"

subsection \<open>Observing a run\<close>

text \<open>The events a run adds to the trace, and the link a loop body ends with.\<close>

definition new_events :: "channelLink \<Rightarrow> channelLink \<Rightarrow> event list" where
  "new_events l l' = drop (length (trace l)) (trace l')"

fun link_of :: "channelLink + lockedIn \<Rightarrow> channelLink" where
  "link_of (Inl l) = l"
| "link_of (Inr (l, needUpdate, packetsToForward)) = l"

text \<open>
  Readings of a trace: the failures handed to an error encrypter, the HTLCs settled
  in the channel state machine, the messages handed to the peer, and the reasons
  the peer was told to disconnect for.
\<close>

primrec failures_of :: "event list \<Rightarrow> (ErrorEncrypter \<times> FailureMessage) list" where
  "failures_of [] = []"
| "failures_of (ev # evs) =
     (case ev of
        ObfuscatorEncryptFirstHop e f \<Rightarrow> (e, f) # failures_of evs
      | _ \<Rightarrow> failures_of evs)"

primrec settles_of :: "event list \<Rightarrow> (bytes \<times> uint64) list" where
  "settles_of [] = []"
| "settles_of (ev # evs) =
     (case ev of
        ChanSettleHTLC preimage i \<Rightarrow> (preimage, i) # settles_of evs
      | _ \<Rightarrow> settles_of evs)"

primrec sent_of :: "event list \<Rightarrow> Message list" where
  "sent_of [] = []"
| "sent_of (ev # evs) =
     (case ev of
        PeerSendMessage m \<Rightarrow> m # sent_of evs
      | _ \<Rightarrow> sent_of evs)"

primrec disconnects_of :: "event list \<Rightarrow> string list" where
  "disconnects_of [] = []"
| "disconnects_of (ev # evs) =
     (case ev of
        PeerDisconnect reason \<Rightarrow> reason # disconnects_of evs
      | _ \<Rightarrow> disconnects_of evs)"

subsection \<open>A sample world and sample links\<close>

text \<open>
  A world in which every call succeeds: no invoice and no preimage is known, the
  channel is fully synced, every onion decodes to an exit-hop payload. The examples
  below change one answer at a time.
\<close>

definition quiet_world :: env where
  "quiet_world =
     \<lparr>exitHop = 0, OnionPacketSize = 1366,
      ChanSyncMsg = (\<lambda>h. Inr (0, 2)),
      IsPending = (\<lambda>h. False),
      NextRevocationKey = (\<lambda>h. Inr 0),
      ProcessChanSyncMsg = (\<lambda>h m. Inr []),
      ActiveHtlcs = (\<lambda>h. []),
      AddHTLC = (\<lambda>h m. Inr 0),
      SettleHTLC = (\<lambda>h p i. None),
      FailHTLC = (\<lambda>h i r. None),
      MalformedFailHTLC = (\<lambda>h i c s. None),
      ReceiveHTLC = (\<lambda>h m. Inr 0),
      ReceiveHTLCSettle = (\<lambda>h p i. None),
      ReceiveFailHTLC = (\<lambda>h i r. None),
      ReceiveNewCommitment = (\<lambda>h s hs. None),
      RevokeCurrentCommitment = (\<lambda>h. Inr (RevokeAndAck 0, [])),
      ReceiveRevocation = (\<lambda>h m. Inr []),
      ReceiveUpdateFee = (\<lambda>h a. None),
      SignNextCommitment = (\<lambda>h. Inr ([], [])),
      FullySynced = (\<lambda>h. True),
      IsInitiator = (\<lambda>h. False),
      CommitFeeRate = (\<lambda>h. 0),
      RemoteNextRevocation = (\<lambda>h. True),
      channel_UpdateFee = (\<lambda>h a. None),
      AvailableBalance = (\<lambda>h. 0),
      SendMessage = (\<lambda>h m. None),
      LookupInvoice = (\<lambda>h r. None),
      SettleInvoice = (\<lambda>h r. None),
      LookupPreimage = (\<lambda>h r. None),
      EstimateFeePerWeight = (\<lambda>h n. Inr 0),
      GetLastChannelUpdate = (\<lambda>h. Some 0),
      DecodeOnionObfuscator = (\<lambda>h b. (0, CodeNone)),
      DecodeHopIterator =
        (\<lambda>h b r. (\<lparr>ForwardingInstructions =
                       \<lparr>NextHop = 0, AmountToForward = 0, OutgoingCTLV = 0\<rparr>,
                     EncodeNextHop = Some []\<rparr>, CodeNone)),
      EncryptFirstHop = (\<lambda>e f. Some []),
      EncodeFailure = (\<lambda>f. Some []),
      Sum256 = (\<lambda>b. []),
      htlcUpdatesAccepted = (\<lambda>h. True),
      errorString = (\<lambda>e. [])\<rparr>"

text \<open>The policy and the height of the spec's scenarios S1 and S2.\<close>

definition sample_policy :: ForwardingPolicy where
  "sample_policy = \<lparr>MinHTLC = 1000, BaseFee = 1000, FeeRate = 1, TimeLockDelta = 144\<rparr>"

definition sample_link :: channelLink where
  "sample_link = NewChannelLink sample_policy False False False 1 1 500000"

definition hop_to ::
  "ShortChannelID \<Rightarrow> MilliSatoshi \<Rightarrow> uint32 \<Rightarrow> event list \<Rightarrow> bytes \<Rightarrow> bytes
     \<Rightarrow> HopIterator \<times> FailCode" where
  "hop_to next amt ctlv h b r =
     (\<lparr>ForwardingInstructions = \<lparr>NextHop = next, AmountToForward = amt, OutgoingCTLV = ctlv\<rparr>,
       EncodeNextHop = Some []\<rparr>, CodeNone)"

definition add_descriptor :: "MilliSatoshi \<Rightarrow> uint32 \<Rightarrow> PaymentDescriptor" where
  "add_descriptor amt timeout =
     \<lparr>EntryType = Add, HtlcIndex = 0, ParentIndex = 0, Amount = amt, RHash = [],
      RPreimage = [], Timeout = timeout, OnionBlob = [], FailReason = []\<rparr>"

definition add_packet :: "MilliSatoshi \<Rightarrow> htlcPacket" where
  "add_packet amt =
     \<lparr>incomingChanID = 2, incomingHTLCID = 0, outgoingChanID = 1, outgoingHTLCID = 0,
      amount = amt, htlc = UpdateAddHTLC 0 0 amt [] 0 [], obfuscator = None,
      isRouted = False, localFailure = False\<rparr>"

text \<open>A world in which every call of the channel state machine that can fail does,
  and a Fail packet from the switch.\<close>

definition failing_world :: env where
  "failing_world =
     quiet_world\<lparr>SettleHTLC := (\<lambda>h p i. Some (ErrOther ''channel'')),
                  FailHTLC := (\<lambda>h i r. Some (ErrOther ''channel'')),
                  ReceiveHTLC := (\<lambda>h m. Inl (ErrOther ''channel'')),
                  ReceiveHTLCSettle := (\<lambda>h p i. Some (ErrOther ''channel'')),
                  ReceiveFailHTLC := (\<lambda>h i r. Some (ErrOther ''channel'')),
                  ReceiveNewCommitment := (\<lambda>h s hs. Some (ErrOther ''channel'')),
                  ReceiveRevocation := (\<lambda>h m. Inl (ErrOther ''channel'')),
                  ReceiveUpdateFee := (\<lambda>h a. Some (ErrOther ''channel'')),
                  SignNextCommitment := (\<lambda>h. Inl (ErrOther ''channel'')),
                  FullySynced := (\<lambda>h. False)\<rparr>"

definition fail_packet :: htlcPacket where
  "fail_packet = (add_packet 0)\<lparr>htlc := UpdateFailHTLC 0 0 [7]\<rparr>"

subsection \<open>The resync scan, in the spec's words\<close>



section \<open>Properties\<close>

subsection \<open>Basic facts\<close>

lemma trace_emit [simp]: "trace (emit ev l) = trace l @ [ev]"
  by (simp add: emit_def)

lemma trace_fail: "trace (fail reason l) = trace l @ [Log Error reason, PeerDisconnect reason]"
  by (simp add: fail_def)

lemma new_events_append [simp]: "trace l' = trace l @ evs \<Longrightarrow> new_events l l' = evs"
  by (simp add: new_events_def)

lemma unat_sub_wrap:
  fixes a t :: "64 word"
  assumes lt: "a < t"
  shows "unat (a - t) = 2 ^ 64 - (unat t - unat a)"
proof -
  have n: "unat a < unat t" using lt by (simp add: word_less_nat_alt)
  have b: "unat t < 2 ^ 64" using unsigned_less [of t] by simp
  have "unat (a - t) = (unat a + 2 ^ 64 - unat t) mod 2 ^ 64"
    using unat_sub_if_size [of a t] n by (simp add: word_size)
  also have "\<dots> = unat a + 2 ^ 64 - unat t" using n b by simp
  finally show ?thesis using n b by simp
qed

lemma sint_int64_div_nonneg:
  assumes "0 \<le> sint a" "0 < sint b"
  shows "sint (int64_div a b) = sint a div sint b"
proof -
  have q: "sint a sdiv sint b = sint a div sint b"
    using assms by (simp add: signed_divide_int_def sgn_if)
  have lo: "0 \<le> sint a div sint b" using assms by (simp add: pos_imp_zdiv_nonneg_iff)
  have "sint a div sint b \<le> sint a" using assms
    by (metis div_by_1 zdiv_mono2 zless_imp_add1_zle zero_less_one add_0)
  moreover have "sint a < 2 ^ 63" using sint_lt [of a] by simp
  ultimately have hi: "sint a div sint b < 2 ^ 63" by linarith
  show ?thesis unfolding int64_div_def q
    using lo hi by (simp add: sint_sbintrunc' signed_take_bit_int_eq_self)
qed

lemma failures_of_append [simp]: "failures_of (xs @ ys) = failures_of xs @ failures_of ys"
  by (induction xs) (auto split: event.splits)
lemma settles_of_append [simp]: "settles_of (xs @ ys) = settles_of xs @ settles_of ys"
  by (induction xs) (auto split: event.splits)
lemma sent_of_append [simp]: "sent_of (xs @ ys) = sent_of xs @ sent_of ys"
  by (induction xs) (auto split: event.splits)
lemma disconnects_of_append [simp]: "disconnects_of (xs @ ys) = disconnects_of xs @ disconnects_of ys"
  by (induction xs) (auto split: event.splits)




lemma unat_ExpectedFee:
  assumes nowrap: "unat a * unat (FeeRate p) < 2 ^ 64"
    and sum: "unat (BaseFee p) + unat a * unat (FeeRate p) div 1000000 < 2 ^ 64"
  shows "unat (ExpectedFee p a) = unat (BaseFee p) + unat a * unat (FeeRate p) div 1000000"
proof -
  have m: "unat (a * FeeRate p) = unat a * unat (FeeRate p)"
    using nowrap by (simp add: unat_mult_lem [THEN iffD1])
  have d: "unat ((a * FeeRate p) div 1000000) = unat a * unat (FeeRate p) div 1000000"
    by (simp add: unat_div m)
  show ?thesis
    unfolding ExpectedFee_def using sum d
    by (simp add: unat_add_lem [THEN iffD1])
qed

lemma new_events_self [simp]: "new_events l l = []"
  by (simp add: new_events_def)

lemma grace_wraps:
  "\<not> (1 :: uint32) - expiryGraceDelta \<le> 500000"
  "\<not> (0 :: uint32) - expiryGraceDelta \<le> 500000"
  by (simp_all add: expiryGraceDelta_def word_le_def uint_word_ariths)

subsection \<open>shouldAdjustCommitFee\<close>

text \<open>
  C2, as stated, fails: with equal fees the function answers no, although
  \<open>|net - chan| = 0 \<ge> chan / 10 = 0\<close> when \<open>chan < 10\<close>. Here both fees are 5.
\<close>

theorem shouldAdjustCommitFee_equal_fees_counterexample:
  "\<not> (shouldAdjustCommitFee 5 5
        \<longleftrightarrow> sint (5 :: Amount) div 10 \<le> \<bar>sint (5 :: Amount) - sint (5 :: Amount)\<bar>)"
  by (simp add: shouldAdjustCommitFee_def)

text \<open>
  C2, amended: for non-negative fees \<open>net\<close> and \<open>chan\<close> with \<open>chan * 10\<close> inside the
  range of \<^verbatim>\<open>int64\<close>, \<open>shouldAdjustCommitFee net chan\<close> holds if and only if the two fees
  differ and \<open>|net - chan| \<ge> chan / 10\<close> (integer division). With \<open>net = chan\<close> it is
  false, also when \<open>chan < 10\<close>.
\<close>

theorem shouldAdjustCommitFee_iff:
  fixes netFee chanFee :: Amount
  assumes n: "0 \<le> sint netFee" and c: "0 \<le> sint chanFee" and b: "sint chanFee * 10 < 2 ^ 63"
  shows "shouldAdjustCommitFee netFee chanFee \<longleftrightarrow>
         netFee \<noteq> chanFee \<and> sint chanFee div 10 \<le> \<bar>sint netFee - sint chanFee\<bar>"
proof -
  have m: "sint (chanFee * 10) = sint chanFee * 10"
    using c b by (simp add: sint_word_mult signed_take_bit_int_eq_self)
  have d: "sint (int64_div (chanFee * 10) 100) = sint chanFee div 10"
    using c by (simp add: sint_int64_div_nonneg m)
  have d0: "0 \<le> sint chanFee div 10" using c by simp
  have dle: "sint chanFee div 10 \<le> sint chanFee" using c by simp
  have a: "sint (chanFee + int64_div (chanFee * 10) 100) = sint chanFee + sint chanFee div 10"
    using c b d0 dle by (simp add: sint_word_add d signed_take_bit_int_eq_self)
  have s: "sint (chanFee - int64_div (chanFee * 10) 100) = sint chanFee - sint chanFee div 10"
    using c b d0 dle sint_lt [of chanFee]
    by (simp add: sint_word_diff d signed_take_bit_int_eq_self)
  have e: "netFee = chanFee \<longleftrightarrow> sint netFee = sint chanFee"
    by (auto simp: signed_word_eqI)
  show ?thesis
    unfolding shouldAdjustCommitFee_def word_sless_alt word_sle_eq a s e
    by auto
qed

theorem shouldAdjustCommitFee_iff_witness:
  "0 \<le> sint (110 :: Amount) \<and> 0 \<le> sint (100 :: Amount) \<and> sint (100 :: Amount) * 10 < 2 ^ 63
   \<and> shouldAdjustCommitFee 110 100
   \<and> (110 :: Amount) \<noteq> 100
   \<and> sint (100 :: Amount) div 10 \<le> \<bar>sint (110 :: Amount) - sint (100 :: Amount)\<bar>"
  using shouldAdjustCommitFee_iff [of 110 100] by simp

subsection \<open>Bandwidth\<close>

text \<open>
  C10: \<open>Bandwidth\<close> is the available balance minus the total amount of the overflow
  queue, subtracted as unsigned 64-bit integers. When the queue's total exceeds the
  balance the result is not zero: it wraps to \<open>2 ^ 64\<close> minus the shortfall.
\<close>

theorem Bandwidth_wraps:
  "Bandwidth E l = AvailableBalance E (trace l) - TotalHtlcAmount (overflowQueue l)
   \<and> (AvailableBalance E (trace l) < TotalHtlcAmount (overflowQueue l) \<longrightarrow>
        unat (Bandwidth E l)
          = 2 ^ 64 - (unat (TotalHtlcAmount (overflowQueue l))
                      - unat (AvailableBalance E (trace l)))
        \<and> Bandwidth E l \<noteq> 0)"
proof -
  let ?a = "AvailableBalance E (trace l)" and ?t = "TotalHtlcAmount (overflowQueue l)"
  have eq: "Bandwidth E l = ?a - ?t" by (simp add: Bandwidth_def)
  have "unat (?a - ?t) = 2 ^ 64 - (unat ?t - unat ?a) \<and> ?a - ?t \<noteq> 0" if lt: "?a < ?t"
    using unat_sub_wrap [OF lt] lt by auto
  then show ?thesis using eq by simp
qed

theorem Bandwidth_wraps_witness:
  "AvailableBalance (quiet_world\<lparr>AvailableBalance := (\<lambda>h. 100)\<rparr>)
       (trace (sample_link\<lparr>overflowQueue := [add_packet 300]\<rparr>))
     < TotalHtlcAmount (overflowQueue (sample_link\<lparr>overflowQueue := [add_packet 300]\<rparr>))
   \<and> unat (Bandwidth (quiet_world\<lparr>AvailableBalance := (\<lambda>h. 100)\<rparr>)
              (sample_link\<lparr>overflowQueue := [add_packet 300]\<rparr>)) = 2 ^ 64 - 200"
  using Bandwidth_wraps [of "quiet_world\<lparr>AvailableBalance := (\<lambda>h. 100)\<rparr>"
                            "sample_link\<lparr>overflowQueue := [add_packet 300]\<rparr>"]
  by (simp add: quiet_world_def TotalHtlcAmount_def add_packet_def)

subsection \<open>The control channel\<close>

text \<open>
  C3, as stated, fails for \<open>min_htlc\<close>: a policy update with \<open>MinHTLC = 5\<close> leaves the
  link's \<open>MinHTLC\<close> at 1000.
\<close>

theorem policyUpdate_MinHTLC_counterexample:
  "(5 :: MilliSatoshi) \<noteq> 0
   \<and> MinHTLC (FwrdingPolicy (snd (htlcManager_select quiet_world
        (LinkControl (policyUpdate
           \<lparr>MinHTLC = 5, BaseFee = 0, FeeRate = 0, TimeLockDelta = 0\<rparr> True))
        sample_link))) \<noteq> 5"
  by (simp add: htlcManager_select_def htlcManager_policyUpdate_def emit_def
      sample_link_def NewChannelLink_def sample_policy_def)

text \<open>
  C3, amended: a policy update overwrites each of \<open>base_fee\<close>, \<open>fee_rate\<close> and
  \<open>time_lock_delta\<close> with the new value when that value is not zero and leaves it
  unchanged otherwise; \<open>min_htlc\<close> is never changed. The loop goes on, and nothing
  else in the link changes, but for the completion signal being closed when there
  is one.
\<close>

theorem policyUpdate_merges:
  "htlcManager_select E (LinkControl (policyUpdate policy done)) l =
     (Loop,
      l\<lparr>FwrdingPolicy :=
           \<lparr>MinHTLC = MinHTLC (FwrdingPolicy l),
            BaseFee = (if BaseFee policy \<noteq> 0 then BaseFee policy
                       else BaseFee (FwrdingPolicy l)),
            FeeRate = (if FeeRate policy \<noteq> 0 then FeeRate policy
                       else FeeRate (FwrdingPolicy l)),
            TimeLockDelta = (if TimeLockDelta policy \<noteq> 0 then TimeLockDelta policy
                             else TimeLockDelta (FwrdingPolicy l))\<rparr>,
         trace := trace l @ (if done then [CloseDone] else [])\<rparr>)"
  by (simp add: htlcManager_select_def htlcManager_policyUpdate_def emit_def Let_def)

theorem policyUpdate_merges_witness:
  "htlcManager_select quiet_world
     (LinkControl (policyUpdate
        \<lparr>MinHTLC = 5, BaseFee = 0, FeeRate = 7, TimeLockDelta = 0\<rparr> False)) sample_link =
     (Loop, sample_link\<lparr>FwrdingPolicy :=
        \<lparr>MinHTLC = 1000, BaseFee = 1000, FeeRate = 7, TimeLockDelta = 144\<rparr>\<rparr>)"
  using policyUpdate_merges [of quiet_world
      "\<lparr>MinHTLC = 5, BaseFee = 0, FeeRate = 7, TimeLockDelta = 0\<rparr>" False sample_link]
  by (simp add: sample_link_def NewChannelLink_def sample_policy_def)

subsection \<open>The overflow queue holds back fresh Adds\<close>

text \<open>
  C7: when the overflow queue is not empty, a downstream Add packet is appended to
  the queue and the iteration ends: the loop goes on, the only event is one log
  line, so the channel state machine is not called, and nothing else in the link
  changes.
\<close>

theorem downstream_Add_queued:
  assumes "isUpdateAddHTLC (htlc pkt)" and "Length (overflowQueue l) \<noteq> 0"
  shows "htlcManager_select E (Downstream pkt) l =
     (Loop,
      l\<lparr>overflowQueue := AddPkt pkt (overflowQueue l),
         trace := trace l @
           [Log Info ''Downstream htlc add update with payment hash(%x) have been added to reprocessing queue, batch_size=%v'']\<rparr>)"
  using assms by (simp add: htlcManager_select_def emit_def)

theorem downstream_Add_queued_witness:
  "isUpdateAddHTLC (htlc (add_packet 7))
   \<and> Length (overflowQueue (sample_link\<lparr>overflowQueue := [add_packet 5]\<rparr>)) \<noteq> 0
   \<and> overflowQueue (snd (htlcManager_select quiet_world (Downstream (add_packet 7))
        (sample_link\<lparr>overflowQueue := [add_packet 5]\<rparr>))) = [add_packet 5, add_packet 7]
   \<and> new_events (sample_link\<lparr>overflowQueue := [add_packet 5]\<rparr>)
        (snd (htlcManager_select quiet_world (Downstream (add_packet 7))
           (sample_link\<lparr>overflowQueue := [add_packet 5]\<rparr>))) =
       [Log Info ''Downstream htlc add update with payment hash(%x) have been added to reprocessing queue, batch_size=%v'']"
  using downstream_Add_queued [of "add_packet 7"
      "sample_link\<lparr>overflowQueue := [add_packet 5]\<rparr>" quiet_world]
  by (simp add: add_packet_def Length_def AddPkt_def new_events_def)

subsection \<open>updateCommitTx and the batch counter\<close>

text \<open>
  C4, as stated, fails: when signing yields \<^verbatim>\<open>ErrNoWindow\<close>, \<^verbatim>\<open>updateCommitTx\<close> returns
  success and leaves the batch counter, here 3, as it is.
\<close>

theorem updateCommitTx_ErrNoWindow_counterexample:
  "fst (updateCommitTx (quiet_world\<lparr>SignNextCommitment := (\<lambda>h. Inl ErrNoWindow)\<rparr>)
          (sample_link\<lparr>batchCounter := 3\<rparr>)) = None
   \<and> batchCounter (snd (updateCommitTx
          (quiet_world\<lparr>SignNextCommitment := (\<lambda>h. Inl ErrNoWindow)\<rparr>)
          (sample_link\<lparr>batchCounter := 3\<rparr>))) \<noteq> 0"
  by (simp add: updateCommitTx_def quiet_world_def emit_def)

text \<open>
  C4, amended: when the next commitment is signed, \<^verbatim>\<open>updateCommitTx\<close> hands one
  \<^verbatim>\<open>CommitSig\<close> to the peer (the result of the send is not looked at), returns
  success and sets the batch counter to zero. When signing fails it sends nothing
  and leaves the batch counter unchanged; it then returns success for
  \<^verbatim>\<open>ErrNoWindow\<close> and the error otherwise. So the counter is reset exactly when a
  \<^verbatim>\<open>CommitSig\<close> is handed to the peer, and a successful return need not reset it.
\<close>

theorem updateCommitTx_batchCounter:
  "(SignNextCommitment E (trace l) = Inr (s, hs) \<longrightarrow>
      fst (updateCommitTx E l) = None
      \<and> batchCounter (snd (updateCommitTx E l)) = 0
      \<and> new_events l (snd (updateCommitTx E l))
          = [ChanSignNextCommitment, PeerSendMessage (CommitSig (ChanID l) s hs)])
   \<and> (SignNextCommitment E (trace l) = Inl err \<longrightarrow>
      fst (updateCommitTx E l) = (if err = ErrNoWindow then None else Some err)
      \<and> batchCounter (snd (updateCommitTx E l)) = batchCounter l
      \<and> (\<forall>m. PeerSendMessage m \<notin> set (new_events l (snd (updateCommitTx E l)))))"
  by (simp add: updateCommitTx_def emit_def new_events_def Let_def)

theorem updateCommitTx_batchCounter_witness:
  "SignNextCommitment quiet_world (trace (sample_link\<lparr>batchCounter := 3\<rparr>)) = Inr ([], [])
   \<and> batchCounter (snd (updateCommitTx quiet_world (sample_link\<lparr>batchCounter := 3\<rparr>))) = 0
   \<and> SignNextCommitment (quiet_world\<lparr>SignNextCommitment := (\<lambda>h. Inl ErrNoWindow)\<rparr>)
        (trace (sample_link\<lparr>batchCounter := 3\<rparr>)) = Inl ErrNoWindow
   \<and> batchCounter (snd (updateCommitTx
        (quiet_world\<lparr>SignNextCommitment := (\<lambda>h. Inl ErrNoWindow)\<rparr>)
        (sample_link\<lparr>batchCounter := 3\<rparr>))) = 3"
  using updateCommitTx_batchCounter [of quiet_world "sample_link\<lparr>batchCounter := 3\<rparr>" "[]" "[]"]
    updateCommitTx_batchCounter [of "quiet_world\<lparr>SignNextCommitment := (\<lambda>h. Inl ErrNoWindow)\<rparr>"
      "sample_link\<lparr>batchCounter := 3\<rparr>" _ _ ErrNoWindow]
  by (simp add: quiet_world_def)

subsection \<open>The fee check of a forwarding hop\<close>

text \<open>
  C1: the code does not do what the claim, and the comment at the call of
  \<^verbatim>\<open>ExpectedFee\<close> ("using the amount of the incoming HTLC"), say. The fee is computed
  from the amount to forward: with a base fee of 0 and a fee rate of 100000, an HTLC
  of 1000000 that forwards 905000 passes the check (the fee on 905000 is 90500),
  although the fee on 1000000 is 100000 and \<open>1000000 - 100000 < 905000\<close>. And the
  difference \<^verbatim>\<open>pd.Amount-expectedFee\<close> wraps in 64 bits: with a base fee of 2000 and a
  fee rate of 0, an HTLC of 1500 that forwards 100 passes the check although
  \<open>1500 - 2000 < 100\<close>. Both HTLCs are forwarded: no failure is sent, \<^verbatim>\<open>needUpdate\<close>
  stays unset and the packet for the next hop is the only result.
\<close>

theorem forward_fee_insufficient_forwarded:
  "(1000000::int) - (0 + 1000000 * 100000 div 1000000) < 905000
   \<and> processLockedInHtlcs_body (quiet_world\<lparr>DecodeHopIterator := hop_to 7 905000 500056\<rparr>)
       (add_descriptor 1000000 500200)
       (sample_link\<lparr>FwrdingPolicy :=
          \<lparr>MinHTLC = 1000, BaseFee = 0, FeeRate = 100000, TimeLockDelta = 144\<rparr>\<rparr>, False, [])
     = Inr (sample_link\<lparr>FwrdingPolicy :=
              \<lparr>MinHTLC = 1000, BaseFee = 0, FeeRate = 100000, TimeLockDelta = 144\<rparr>\<rparr>, False,
        [\<lparr>incomingChanID = 1, incomingHTLCID = 0, outgoingChanID = 7, outgoingHTLCID = 0,
          amount = 905000, htlc = UpdateAddHTLC 0 0 905000 [] 500056 [], obfuscator = Some 0,
          isRouted = False, localFailure = False\<rparr>])
   \<and> (1500::int) - (2000 + 1500 * 0 div 1000000) < 100
   \<and> processLockedInHtlcs_body (quiet_world\<lparr>DecodeHopIterator := hop_to 7 100 500056\<rparr>)
       (add_descriptor 1500 500200)
       (sample_link\<lparr>FwrdingPolicy :=
          \<lparr>MinHTLC = 1000, BaseFee = 2000, FeeRate = 0, TimeLockDelta = 144\<rparr>\<rparr>, False, [])
     = Inr (sample_link\<lparr>FwrdingPolicy :=
              \<lparr>MinHTLC = 1000, BaseFee = 2000, FeeRate = 0, TimeLockDelta = 144\<rparr>\<rparr>, False,
        [\<lparr>incomingChanID = 1, incomingHTLCID = 0, outgoingChanID = 7, outgoingHTLCID = 0,
          amount = 100, htlc = UpdateAddHTLC 0 0 100 [] 500056 [], obfuscator = Some 0,
          isRouted = False, localFailure = False\<rparr>])"
  by (simp add: processLockedInHtlcs_body_def processLockedInHtlcs_Add_def
      processLockedInHtlcs_forward_def quiet_world_def hop_to_def add_descriptor_def
      sample_link_def NewChannelLink_def ExpectedFee_def Let_def
      word_less_def uint_word_ariths)

subsection \<open>The exit hop\<close>




text \<open>
  C9: the grace check subtracts in 32 bits, so for a timeout below 2 the difference
  wraps and the check does not fire. With timeout 1 at height 500000, where
  \<open>1 - 2 \<le> 500000\<close>, the HTLC of an unknown payment hash is rejected with
  \<open>UnknownPaymentHash\<close>, not \<open>FinalIncorrectCltvExpiry\<close>; in debug mode the HTLC of a
  known invoice is settled.
\<close>

theorem exitHop_grace_check_wraps:
  "int (unat (1 :: uint32)) - 2 \<le> int (unat (500000 :: uint32))
   \<and> failures_of (new_events sample_link (link_of (processLockedInHtlcs_body quiet_world
         (add_descriptor 1000 1) (sample_link, False, []))))
       = [(0, FailUnknownPaymentHash)]
   \<and> settles_of (new_events (sample_link\<lparr>DebugHTLC := True\<rparr>)
        (link_of (processLockedInHtlcs_body
          (quiet_world\<lparr>LookupInvoice :=
             (\<lambda>h r. Some \<lparr>PaymentPreimage = [1], Value = 1000, Settled = False\<rparr>)\<rparr>)
          (add_descriptor 1000 1) (sample_link\<lparr>DebugHTLC := True\<rparr>, False, []))))
     = [([1], 0)]
   \<and> failures_of (new_events (sample_link\<lparr>DebugHTLC := True\<rparr>)
        (link_of (processLockedInHtlcs_body
          (quiet_world\<lparr>LookupInvoice :=
             (\<lambda>h r. Some \<lparr>PaymentPreimage = [1], Value = 1000, Settled = False\<rparr>)\<rparr>)
          (add_descriptor 1000 1) (sample_link\<lparr>DebugHTLC := True\<rparr>, False, []))))
     = []"
  by (simp add: processLockedInHtlcs_body_def processLockedInHtlcs_Add_def
      processLockedInHtlcs_exitHop_def processLockedInHtlcs_settle_def
      quiet_world_def add_descriptor_def sendHTLCError_def
      sample_link_def NewChannelLink_def Let_def grace_wraps
      new_events_def emit_def)

subsection \<open>The resync scan\<close>








subsection \<open>Errors of the channel state machine\<close>

text \<open>
  Where the link does fail: an error of \<^verbatim>\<open>ReceiveHTLC\<close>, \<^verbatim>\<open>ReceiveHTLCSettle\<close>,
  \<^verbatim>\<open>ReceiveFailHTLC\<close>, \<^verbatim>\<open>ReceiveNewCommitment\<close>, \<^verbatim>\<open>ReceiveRevocation\<close> or
  \<^verbatim>\<open>ReceiveUpdateFee\<close> on an upstream message, and of \<^verbatim>\<open>SettleHTLC\<close> on a downstream
  Settle packet, is logged and the peer is told to disconnect; so it is when signing
  fails on a timer tick, which also leaves the loop. Only the error of \<^verbatim>\<open>FailHTLC\<close>
  on a downstream Fail packet, next to them, is logged and nothing more.
\<close>

lemma sibling_errors_fail_link:
  "(ReceiveHTLC E (trace l) (UpdateAddHTLC cid i amt ph ex blob) = Inl err \<longrightarrow>
      htlcManager_select E (Upstream (UpdateAddHTLC cid i amt ph ex blob)) l
        = (Loop, fail ''unable to handle upstream add HTLC: %v''
                   (emit (ChanReceiveHTLC (UpdateAddHTLC cid i amt ph ex blob)) l)))
   \<and> (ReceiveHTLCSettle E (trace l) pre idx = Some err \<longrightarrow>
      htlcManager_select E (Upstream (UpdateFufillHTLC cid idx pre)) l
        = (Loop, fail ''unable to handle upstream settle HTLC: %v''
                   (emit (ChanReceiveHTLCSettle pre idx) l)))
   \<and> (ReceiveFailHTLC E (trace l) idx reason = Some err \<longrightarrow>
      htlcManager_select E (Upstream (UpdateFailHTLC cid idx reason)) l
        = (Loop, fail ''unable to handle upstream fail HTLC: %v''
                   (emit (ChanReceiveFailHTLC idx reason) l)))
   \<and> (ReceiveNewCommitment E (trace l) sig hs = Some err \<longrightarrow>
      htlcManager_select E (Upstream (CommitSig cid sig hs)) l
        = (Loop, fail ''ChannelPoint(%v): unable to accept new commitment: %v''
                   (if err = InvalidCommitSigError
                    then emit (PeerSendMessage (ErrorMsg (ChanID l) err))
                           (emit (ChanReceiveNewCommitment sig hs) l)
                    else emit (ChanReceiveNewCommitment sig hs) l)))
   \<and> (ReceiveRevocation E (trace l) (RevokeAndAck r) = Inl err \<longrightarrow>
      htlcManager_select E (Upstream (RevokeAndAck r)) l
        = (Loop, fail ''unable to accept revocation: %v''
                   (emit (ChanReceiveRevocation (RevokeAndAck r)) l)))
   \<and> (ReceiveUpdateFee E (trace l) (ucast fee) = Some err \<longrightarrow>
      htlcManager_select E (Upstream (UpdateFee cid fee)) l
        = (Loop, fail ''error receiving fee update: %v''
                   (emit (ChanReceiveUpdateFee (ucast fee)) l)))
   \<and> (htlc pkt = UpdateFufillHTLC cid i pre
        \<and> SettleHTLC E (trace l) pre (incomingHTLCID pkt) = Some err \<longrightarrow>
      htlcManager_select E (Downstream pkt) l
        = (Loop, fail ''unable to settle incoming HTLC: %v''
                   (emit (ChanSettleHTLC pre (incomingHTLCID pkt)) l)))
   \<and> (htlc pkt' = UpdateFailHTLC cid i reason
        \<and> FailHTLC E (trace l) (incomingHTLCID pkt') reason = Some err \<longrightarrow>
      htlcManager_select E (Downstream pkt') l
        = (Loop, emit (Log Error ''unable to cancel HTLC: %v'')
                   (emit (ChanFailHTLC (incomingHTLCID pkt') reason) l)))
   \<and> (batchCounter l \<noteq> 0 \<and> SignNextCommitment E (trace l) = Inl err \<and> err \<noteq> ErrNoWindow \<longrightarrow>
      htlcManager_select E BatchTick l
        = (BreakOut, fail ''unable to update commitment: %v'' (emit ChanSignNextCommitment l)))
   \<and> (logCommitTick l \<and> \<not> FullySynced E (trace l)
        \<and> SignNextCommitment E (trace l) = Inl err \<and> err \<noteq> ErrNoWindow \<longrightarrow>
      htlcManager_select E LogCommitTick l
        = (BreakOut, fail ''unable to update commitment: %v'' (emit ChanSignNextCommitment l)))
   \<and> trace (fail why l) = trace l @ [Log Error why, PeerDisconnect why]"
  by (simp add: htlcManager_select_def handleUpstreamMsg_def handleDownStreamPkt_def
      updateCommitTx_def trace_fail Let_def)

text \<open>
  An error of \<^verbatim>\<open>RevokeCurrentCommitment\<close>, after a \<^verbatim>\<open>CommitSig\<close> has been accepted, is
  logged and nothing more: no revocation is sent and the peer is not told to
  disconnect.
\<close>

lemma upstream_CommitSig_revoke_error:
  "ReceiveNewCommitment E (trace l) sig hs = None \<Longrightarrow>
   RevokeCurrentCommitment E (trace l @ [ChanReceiveNewCommitment sig hs]) = Inl err \<Longrightarrow>
   htlcManager_select E (Upstream (CommitSig cid sig hs)) l
     = (Loop, emit (Log Error ''unable to revoke commitment: %v'')
                (emit ChanRevokeCurrentCommitment (emit (ChanReceiveNewCommitment sig hs) l)))"
  by (simp add: htlcManager_select_def handleUpstreamMsg_def Let_def)

text \<open>
  C5: the code does not do what the claim says for the two errors it names. When
  \<^verbatim>\<open>RevokeCurrentCommitment\<close> fails after an accepted \<^verbatim>\<open>CommitSig\<close>, and when
  \<^verbatim>\<open>FailHTLC\<close> fails on a downstream Fail packet, the link logs the error and the
  handler returns: the peer is not told to disconnect and the loop goes on. These
  are the whole results of the two iterations.
\<close>

theorem channel_errors_only_logged:
  "RevokeCurrentCommitment
       (quiet_world\<lparr>RevokeCurrentCommitment := (\<lambda>h. Inl (ErrOther ''channel''))\<rparr>)
       (trace sample_link @ [ChanReceiveNewCommitment [] []]) = Inl (ErrOther ''channel'')
   \<and> htlcManager_select
       (quiet_world\<lparr>RevokeCurrentCommitment := (\<lambda>h. Inl (ErrOther ''channel''))\<rparr>)
       (Upstream (CommitSig 0 [] [])) sample_link
     = (Loop, sample_link\<lparr>trace := [ChanReceiveNewCommitment [] [],
                                      ChanRevokeCurrentCommitment,
                                      Log Error ''unable to revoke commitment: %v'']\<rparr>)
   \<and> FailHTLC failing_world (trace sample_link) (incomingHTLCID fail_packet) [7]
     = Some (ErrOther ''channel'')
   \<and> htlcManager_select failing_world (Downstream fail_packet) sample_link
     = (Loop, sample_link\<lparr>trace := [ChanFailHTLC 0 [7],
                                      Log Error ''unable to cancel HTLC: %v'']\<rparr>)"
  by (simp add: htlcManager_select_def handleUpstreamMsg_def handleDownStreamPkt_def
      failing_world_def quiet_world_def fail_packet_def add_packet_def emit_def
      sample_link_def NewChannelLink_def Let_def)

end
